theory Spec2Isabelle
  imports Main "HOL-Library.List_Lexorder"
begin

section \<open>Data model of make\_plandata.py\<close>

text \<open>
  A Python \<open>str\<close> is a sequence of Unicode code points, so it is modelled as a list of
  natural numbers (one per code point) and not as a list of bytes: \<open>str.strip\<close> removes
  code points such as U+3000 (the ideographic space), which is several bytes in UTF-8.
\<close>

type_synonym ustr = "nat list"

definition of_ascii :: "string \<Rightarrow> ustr" where
  "of_ascii s = map of_char s"

text \<open>
  The rows handled by the program are Python lists whose elements are either \<open>str\<close>
  (the cells read by \<open>csv.reader\<close>, the unit token) or \<open>int\<close> (the year, the fixed
  quantity and the fixed actual amount).
\<close>

datatype cell = is_CStr: CStr (str_of: ustr) | is_CInt: CInt (int_of: int)

datatype error = IndexError | ValueError | TypeError

text \<open>\<open>read_csv\<close> returns either a list of rows or the boolean \<open>False\<close>.\<close>

datatype csv_result = PyFalse | RowList "ustr list list"

text \<open>The diagnostics the program prints, one constructor per \<open>print\<close> call; a
  traceback is what the interpreter prints for an uncaught exception.\<close>

datatype msg =
    WindowOrderMsg
  | WindowSpanMsg
  | FileNotFoundMsg
  | EmptyVersionMsg nat "ustr list"
  | CsvErrorMsg
  | UnexpectedErrorMsg
  | EmptyDataMsg
  | WriteErrorMsg
  | Traceback error

text \<open>\<open>limmit_num = 100\<close>\<close>

definition limmit_num :: nat where
  "limmit_num = 100"

text \<open>The unit token (U+5F0F) and the label of the dummy work (U+30C0 U+30DF U+30FC
  U+5DE5 U+4E8B), as code points.\<close>

definition shiki :: ustr where
  "shiki = [24335]"

definition dummy_label :: ustr where
  "dummy_label = [12480, 12511, 12540, 24037, 20107]"

section \<open>Built-ins of Python used by the program\<close>

text \<open>
  \<open>str.strip()\<close> removes the leading and trailing code points that Python classifies as
  whitespace: U+0009..U+000D, U+001C..U+0020, U+0085, U+00A0, U+1680, U+2000..U+200A,
  U+2028, U+2029, U+202F, U+205F and U+3000.
\<close>

definition is_space :: "nat \<Rightarrow> bool" where
  "is_space c \<longleftrightarrow>
     (9 \<le> c \<and> c \<le> 13) \<or> (28 \<le> c \<and> c \<le> 32) \<or> c = 133 \<or> c = 160 \<or> c = 5760 \<or>
     (8192 \<le> c \<and> c \<le> 8202) \<or> c = 8232 \<or> c = 8233 \<or> c = 8239 \<or> c = 8287 \<or> c = 12288"

definition strip :: "ustr \<Rightarrow> ustr" where
  "strip s = rev (dropWhile is_space (rev (dropWhile is_space s)))"

text \<open>
  \<open>list.insert(i, x)\<close> for \<open>i \<ge> 0\<close> (an index beyond the end appends) and
  \<open>del xs[i:j]\<close> for \<open>0 \<le> i \<le> j\<close> (a slice beyond the end deletes what is there).
\<close>

definition insert_at :: "nat \<Rightarrow> 'a \<Rightarrow> 'a list \<Rightarrow> 'a list" where
  "insert_at i x xs = take i xs @ x # drop i xs"

definition del_slice :: "nat \<Rightarrow> nat \<Rightarrow> 'a list \<Rightarrow> 'a list" where
  "del_slice i j xs = take i xs @ drop j xs"

text \<open>
  The built-in \<open>int()\<close> applied to a \<open>str\<close> is a parameter \<open>to_int\<close> of the model: a
  function that gives \<open>None\<close> where \<open>int()\<close> raises \<open>ValueError\<close>. Every theorem below
  holds for every such function. \<open>int(row[i])\<close> raises \<open>IndexError\<close> when the row is too
  short, before \<open>int\<close> is called.
\<close>

definition int_field :: "(ustr \<Rightarrow> int option) \<Rightarrow> ustr list \<Rightarrow> nat \<Rightarrow> error + int" where
  "int_field to_int row i =
     (if length row \<le> i then Inl IndexError
      else case to_int (row ! i) of None \<Rightarrow> Inl ValueError | Some n \<Rightarrow> Inr n)"

text \<open>
  The instance of \<open>to_int\<close> used to run the model on concrete rows: surrounding
  whitespace, an optional sign, then one or more ASCII digits. \<open>int()\<close> gives the same
  value on these strings.
\<close>

fun digits_value :: "int \<Rightarrow> ustr \<Rightarrow> int option" where
  "digits_value acc [] = Some acc"
| "digits_value acc (c # cs) =
     (if 48 \<le> c \<and> c \<le> 57 then digits_value (10 * acc + int (c - 48)) cs else None)"

definition int_ascii :: "ustr \<Rightarrow> int option" where
  "int_ascii s =
     (case strip s of
        [] \<Rightarrow> None
      | c # cs \<Rightarrow>
          if c = 45 then (if cs = [] then None else map_option uminus (digits_value 0 cs))
          else if c = 43 then (if cs = [] then None else digits_value 0 cs)
          else digits_value 0 (c # cs))"

section \<open>read\_csv\<close>

text \<open>
  The file system and \<open>csv.reader\<close> are the environment of \<open>read_csv\<close>. A path is
  either not a file, or a file from which the reader yields a sequence of events: a
  parsed row, a \<open>csv.Error\<close>, or any other exception (a decoding error, a failing
  \<open>open\<close>). Nothing is read after an exception.
\<close>

datatype reader_event = Row "ustr list" | CsvError | OtherError

datatype source = NoFile | File "reader_event list"

text \<open>The loop \<open>for line_no, row in enumerate(reader, start=2)\<close>; the result is what is
  printed on stderr and the value returned.\<close>

fun read_rows :: "nat \<Rightarrow> reader_event list \<Rightarrow> ustr list list \<Rightarrow> msg list \<times> csv_result" where
  "read_rows line_no [] rows = ([], RowList rows)"
| "read_rows line_no (Row row # rest) rows =
     (if row = [] \<or> list_all (\<lambda>cell. strip cell = []) row
      then read_rows (Suc line_no) rest rows
      else if strip (row ! 0) = [] then ([EmptyVersionMsg line_no row], PyFalse)
      else read_rows (Suc line_no) rest (rows @ [row]))"
| "read_rows line_no (CsvError # rest) rows = ([CsvErrorMsg], PyFalse)"
| "read_rows line_no (OtherError # rest) rows = ([UnexpectedErrorMsg], PyFalse)"

definition read_csv :: "source \<Rightarrow> msg list \<times> csv_result" where
  "read_csv src =
     (case src of
        NoFile \<Rightarrow> ([FileNotFoundMsg], PyFalse)
      | File events \<Rightarrow>
          (case events of
             [] \<Rightarrow> ([], RowList [])
           | Row header # rest \<Rightarrow> read_rows 2 rest []
           | CsvError # rest \<Rightarrow> ([CsvErrorMsg], PyFalse)
           | OtherError # rest \<Rightarrow> ([UnexpectedErrorMsg], PyFalse)))"

section \<open>make\_plan and add\_planlist\<close>

text \<open>The list \<open>tmplist\<close> that \<open>add_planlist\<close> builds from a row and a year.\<close>

definition plan_record :: "ustr list \<Rightarrow> int \<Rightarrow> cell list" where
  "plan_record row yyyy =
     insert_at 7 (CInt 0)
       (insert_at 5 (CStr shiki)
          (insert_at 4 (CInt 1)
             (insert_at 1 (CInt yyyy)
                (del_slice 3 5 (map CStr row)))))"

text \<open>\<open>add_planlist\<close> appends to \<open>plan_list\<close> in place and returns the next year; the
  model returns both the next year and the updated list.\<close>

definition add_planlist ::
  "(ustr \<Rightarrow> int option) \<Rightarrow> ustr list \<Rightarrow> int \<Rightarrow> int \<Rightarrow> cell list list
     \<Rightarrow> error + (int \<times> cell list list)" where
  "add_planlist to_int row yyyy start_year plan_list =
     (let tmplist = plan_record row yyyy;
          plan_list' = (if yyyy \<ge> start_year then plan_list @ [tmplist] else plan_list)
      in case int_field to_int row 4 of
           Inl err \<Rightarrow> Inl err
         | Inr period \<Rightarrow> Inr (yyyy + period, plan_list'))"

text \<open>The inner loop \<open>for i in range(1, limmit_num)\<close> of \<open>make_plan\<close>, by recursion on
  the values of \<open>i\<close> still to come.\<close>

fun item_loop ::
  "(ustr \<Rightarrow> int option) \<Rightarrow> nat list \<Rightarrow> ustr list \<Rightarrow> int \<Rightarrow> int \<Rightarrow> int \<Rightarrow> cell list list
     \<Rightarrow> error + cell list list" where
  "item_loop to_int [] row yyyy start_year last_year plan_list = Inr plan_list"
| "item_loop to_int (i # is) row yyyy start_year last_year plan_list =
     (if yyyy \<ge> last_year then Inr plan_list
      else case add_planlist to_int row yyyy start_year plan_list of
             Inl err \<Rightarrow> Inl err
           | Inr (yyyy', plan_list') \<Rightarrow>
               (case int_field to_int row 4 of
                  Inl err \<Rightarrow> Inl err
                | Inr period \<Rightarrow>
                    if period < 1 then Inr plan_list'
                    else item_loop to_int is row yyyy' start_year last_year plan_list'))"

text \<open>The same loop, returning how it ended and how many times its body was entered
  instead of the list.\<close>

datatype loop_exit = WindowBreak | OneTimeBreak | RangeExhausted

fun item_loop_exit ::
  "(ustr \<Rightarrow> int option) \<Rightarrow> nat list \<Rightarrow> ustr list \<Rightarrow> int \<Rightarrow> int \<Rightarrow> int
     \<Rightarrow> error + (loop_exit \<times> nat)" where
  "item_loop_exit to_int [] row yyyy start_year last_year = Inr (RangeExhausted, 0)"
| "item_loop_exit to_int (i # is) row yyyy start_year last_year =
     (if yyyy \<ge> last_year then Inr (WindowBreak, 1)
      else case add_planlist to_int row yyyy start_year [] of
             Inl err \<Rightarrow> Inl err
           | Inr (yyyy', plan_list') \<Rightarrow>
               (case int_field to_int row 4 of
                  Inl err \<Rightarrow> Inl err
                | Inr period \<Rightarrow>
                    if period < 1 then Inr (OneTimeBreak, 1)
                    else (case item_loop_exit to_int is row yyyy' start_year last_year of
                            Inl err \<Rightarrow> Inl err
                          | Inr (ex, n) \<Rightarrow> Inr (ex, Suc n))))"

text \<open>The outer loop \<open>for row in data_list\<close>.\<close>

fun make_plan_rows ::
  "(ustr \<Rightarrow> int option) \<Rightarrow> ustr list list \<Rightarrow> int \<Rightarrow> int \<Rightarrow> cell list list
     \<Rightarrow> error + cell list list" where
  "make_plan_rows to_int [] start_year last_year plan_list = Inr plan_list"
| "make_plan_rows to_int (row # rest) start_year last_year plan_list =
     (case int_field to_int row 3 of
        Inl err \<Rightarrow> Inl err
      | Inr yyyy \<Rightarrow>
          (case item_loop to_int [1..<limmit_num] row yyyy start_year last_year plan_list of
             Inl err \<Rightarrow> Inl err
           | Inr plan_list' \<Rightarrow> make_plan_rows to_int rest start_year last_year plan_list'))"

text \<open>Iterating over the boolean \<open>False\<close> raises \<open>TypeError\<close>.\<close>

definition make_plan ::
  "(ustr \<Rightarrow> int option) \<Rightarrow> csv_result \<Rightarrow> int \<Rightarrow> int \<Rightarrow> error + cell list list" where
  "make_plan to_int data_list start_year last_year =
     (case data_list of
        PyFalse \<Rightarrow> Inl TypeError
      | RowList rows \<Rightarrow> make_plan_rows to_int rows start_year last_year [])"

section \<open>fill\_dummydata\<close>

text \<open>The first loop: \<open>year_list.append(i[1])\<close>; a record with fewer than two fields
  raises \<open>IndexError\<close>.\<close>

fun collect_years :: "cell list list \<Rightarrow> error + cell list" where
  "collect_years [] = Inr []"
| "collect_years (r # rs) =
     (if length r < 2 then Inl IndexError
      else case collect_years rs of Inl err \<Rightarrow> Inl err | Inr ys \<Rightarrow> Inr (r ! 1 # ys))"

text \<open>
  \<open>list.sort()\<close> on a list of distinct cells: integers are ordered by value, strings by
  code points; an integer and a string cannot be compared, and sorting a list that holds
  both raises \<open>TypeError\<close>.
\<close>

definition sort_cells :: "cell list \<Rightarrow> error + cell list" where
  "sort_cells cs =
     (if list_all is_CInt cs then Inr (map CInt (sort (map int_of cs)))
      else if list_all is_CStr cs then Inr (map CStr (sort (map str_of cs)))
      else Inl TypeError)"

definition dummy_data :: "int \<Rightarrow> cell list" where
  "dummy_data cnt_year =
     [CInt 5, CInt cnt_year, CStr dummy_label, CStr dummy_label, CInt 1, CStr shiki,
      CInt 0, CInt 0, CStr []]"

text \<open>The loop \<open>for cnt_year in range(start_year, last_year)\<close>.\<close>

fun fill_loop :: "int list \<Rightarrow> cell list \<Rightarrow> cell list list \<Rightarrow> cell list list" where
  "fill_loop [] unique_year_list plan_list = plan_list"
| "fill_loop (cnt_year # rest) unique_year_list plan_list =
     (if CInt cnt_year \<in> set unique_year_list then fill_loop rest unique_year_list plan_list
      else fill_loop rest unique_year_list (plan_list @ [dummy_data cnt_year]))"

definition fill_dummydata :: "cell list list \<Rightarrow> int \<Rightarrow> int \<Rightarrow> error + cell list list" where
  "fill_dummydata plan_list start_year last_year =
     (case collect_years plan_list of
        Inl err \<Rightarrow> Inl err
      | Inr year_list \<Rightarrow>
          (case sort_cells (remdups year_list) of
             Inl err \<Rightarrow> Inl err
           | Inr unique_year_list \<Rightarrow>
               Inr (fill_loop [start_year..last_year - 1] unique_year_list plan_list)))"

section \<open>save\_csv and main\<close>

text \<open>What happened to the output file.\<close>

datatype file_effect = NotWritten | WriteFailed | Written "cell list list"

text \<open>\<open>writable\<close> says whether opening and writing the output file succeeds. The result
  is what is printed, the value returned and the effect on the file.\<close>

definition save_csv :: "bool \<Rightarrow> cell list list \<Rightarrow> msg list \<times> bool \<times> file_effect" where
  "save_csv writable data_list =
     (if data_list = [] then ([EmptyDataMsg], False, NotWritten)
      else if writable then ([], True, Written data_list)
      else ([WriteErrorMsg], False, WriteFailed))"

text \<open>
  A run of the program: the exit status of the process (\<open>sys.exit()\<close> without argument
  and a normal end give 0, an uncaught exception gives 1), what was printed on stdout and
  stderr, and the effect on the output file.
\<close>

record run =
  exit_status :: int
  stdout :: "msg list"
  stderr :: "msg list"
  out_file :: file_effect

definition main :: "(ustr \<Rightarrow> int option) \<Rightarrow> source \<Rightarrow> bool \<Rightarrow> int \<Rightarrow> int \<Rightarrow> run" where
  "main to_int src writable start_year last_year =
     (if last_year \<le> start_year then
        \<lparr>exit_status = 0, stdout = [WindowOrderMsg], stderr = [], out_file = NotWritten\<rparr>
      else if last_year - start_year > int limmit_num then
        \<lparr>exit_status = 0, stdout = [WindowSpanMsg], stderr = [], out_file = NotWritten\<rparr>
      else
        (case read_csv src of (errs, data_list) \<Rightarrow>
          (case make_plan to_int data_list start_year last_year of
             Inl err \<Rightarrow>
               \<lparr>exit_status = 1, stdout = [], stderr = errs @ [Traceback err],
                out_file = NotWritten\<rparr>
           | Inr plan_list \<Rightarrow>
               (case fill_dummydata plan_list start_year last_year of
                  Inl err \<Rightarrow>
                    \<lparr>exit_status = 1, stdout = [], stderr = errs @ [Traceback err],
                     out_file = NotWritten\<rparr>
                | Inr full_plan_list \<Rightarrow>
                    (case save_csv writable full_plan_list of (outs, ok, eff) \<Rightarrow>
                       \<lparr>exit_status = 0, stdout = outs, stderr = errs, out_file = eff\<rparr>)))))"

section \<open>The gap filler in closed form\<close>

lemma fill_loop_eq:
  "fill_loop ys u pl = pl @ map dummy_data (filter (\<lambda>y. CInt y \<notin> set u) ys)"
  by (induction ys arbitrary: pl) auto

lemma collect_years_Inr:
  "collect_years pl = Inr ys \<Longrightarrow> ys = map (\<lambda>r. r ! 1) pl \<and> (\<forall>r\<in>set pl. 2 \<le> length r)"
  by (induction pl arbitrary: ys) (auto split: if_splits sum.splits)

lemma collect_years_ok:
  "\<forall>r\<in>set pl. 2 \<le> length r \<Longrightarrow> collect_years pl = Inr (map (\<lambda>r. r ! 1) pl)"
  by (induction pl) auto

lemma sort_cells_set: "sort_cells cs = Inr u \<Longrightarrow> set u = set cs"
  by (auto simp: sort_cells_def list_all_iff image_iff split: if_splits)

lemma sort_cells_ints: "list_all is_CInt cs \<Longrightarrow> \<exists>u. sort_cells cs = Inr u"
  by (simp add: sort_cells_def)

lemma fill_dummydata_Inr:
  assumes "fill_dummydata pl s e = Inr full"
  shows "full = pl @ map dummy_data (filter (\<lambda>y. CInt y \<notin> (\<lambda>r. r ! 1) ` set pl) [s..e - 1])"
    and "\<forall>r\<in>set pl. 2 \<le> length r"
proof -
  from assms obtain ys u where ys: "collect_years pl = Inr ys"
    and u: "sort_cells (remdups ys) = Inr u"
    and full: "full = fill_loop [s..e - 1] u pl"
    by (auto simp: fill_dummydata_def split: sum.splits)
  from collect_years_Inr [OF ys] have ys_eq: "ys = map (\<lambda>r. r ! 1) pl"
    and len: "\<forall>r\<in>set pl. 2 \<le> length r" by auto
  from sort_cells_set [OF u] have "set u = (\<lambda>r. r ! 1) ` set pl" by (simp add: ys_eq)
  with full show "full = pl @ map dummy_data (filter (\<lambda>y. CInt y \<notin> (\<lambda>r. r ! 1) ` set pl) [s..e - 1])"
    by (simp add: fill_loop_eq)
  from len show "\<forall>r\<in>set pl. 2 \<le> length r" .
qed

lemma fill_dummydata_ok:
  assumes "\<forall>r\<in>set pl. 2 \<le> length r \<and> is_CInt (r ! 1)"
  shows "\<exists>full. fill_dummydata pl s e = Inr full"
proof -
  have c: "collect_years pl = Inr (map (\<lambda>r. r ! 1) pl)"
    using assms by (simp add: collect_years_ok)
  have "list_all is_CInt (remdups (map (\<lambda>r. r ! 1) pl))"
    using assms by (auto simp: list_all_iff)
  from sort_cells_ints [OF this]
  obtain u where "sort_cells (remdups (map (\<lambda>r. r ! 1) pl)) = Inr u" ..
  with c show ?thesis by (simp add: fill_dummydata_def)
qed

section \<open>The window check of main\<close>

text \<open>
  Claim C4, as stated, asks for a non-zero exit status when the window is rejected.
  \<open>main\<close> calls \<open>sys.exit()\<close> without an argument, which ends the process with status 0:
  for the window 2030..2025 the exit status is 0.
\<close>

theorem main_bad_window_exit_status_counterexample:
  "2025 \<le> (2030 :: int) \<and> exit_status (main int_ascii NoFile True 2030 2025) = 0"
  by (simp add: main_def)

text \<open>
  Claim C4, amended: if \<open>last_year \<le> start_year\<close> or \<open>last_year - start_year > 100\<close>, the
  run ends with exit status 0 after printing exactly one diagnostic, whatever the input
  file holds: nothing is read, expanded or filled, nothing is written to stderr and the
  output file is not written.
\<close>

theorem main_bad_window_aborts:
  assumes "last_year \<le> start_year \<or> last_year - start_year > int limmit_num"
  shows "main to_int src writable start_year last_year =
           \<lparr>exit_status = 0,
            stdout = [if last_year \<le> start_year then WindowOrderMsg else WindowSpanMsg],
            stderr = [], out_file = NotWritten\<rparr>"
  using assms by (auto simp: main_def)

theorem main_bad_window_aborts_witness:
  "main int_ascii (File [Row [], Row [of_ascii ''1'']]) True 2025 2200 =
     \<lparr>exit_status = 0, stdout = [WindowSpanMsg], stderr = [], out_file = NotWritten\<rparr>"
  using main_bad_window_aborts [of 2200 2025 int_ascii "File [Row [], Row [of_ascii ''1'']]" True]
  by (simp add: limmit_num_def)

section \<open>Failures of read\_csv\<close>

lemma read_rows_bad_version:
  assumes "Row row \<in> set rest" "row \<noteq> []" "\<not> list_all (\<lambda>cell. strip cell = []) row"
    "strip (row ! 0) = []"
  shows "snd (read_rows line_no rest rows) = PyFalse"
  using assms(1)
proof (induction rest arbitrary: line_no rows)
  case Nil
  then show ?case by simp
next
  case (Cons ev rest)
  show ?case
  proof (cases ev)
    case (Row r)
    show ?thesis
    proof (cases "r = row")
      case True
      with Row assms(2-4) show ?thesis by simp
    next
      case False
      with Row Cons.prems have "Row row \<in> set rest" by simp
      from Cons.IH [OF this] Row show ?thesis by simp
    qed
  qed simp_all
qed

text \<open>
  Claim C5: if a row after the header is not fully blank and its first field is empty
  or holds only whitespace, \<open>read_csv\<close> returns \<open>False\<close> and no list of rows, whatever
  the header and the other rows are.
\<close>

theorem read_csv_empty_version_fails:
  assumes "Row row \<in> set rest" "row \<noteq> []" "\<not> list_all (\<lambda>cell. strip cell = []) row"
    "strip (row ! 0) = []"
  shows "snd (read_csv (File (header # rest))) = PyFalse"
  using read_rows_bad_version [OF assms]
  by (cases header) (simp_all add: read_csv_def)

theorem read_csv_empty_version_fails_witness:
  "snd (read_csv (File [Row [of_ascii ''ver'', of_ascii ''name''],
                        Row [of_ascii ''1'', of_ascii ''roof''],
                        Row [[12288, 32], of_ascii ''wall''],
                        Row [of_ascii ''1'', of_ascii ''door'']])) = PyFalse"
  by (rule read_csv_empty_version_fails [where row = "[[12288, 32], of_ascii ''wall'']"])
     (simp_all add: strip_def is_space_def of_ascii_def)

text \<open>The other two causes of failure: a path that is not a file, and a \<open>csv.Error\<close>
  raised after any number of rows. \<open>read_csv\<close> returns \<open>False\<close> exactly when it has
  printed a diagnostic.\<close>

lemma read_csv_no_file: "read_csv NoFile = ([FileNotFoundMsg], PyFalse)"
  by (simp add: read_csv_def)

lemma read_rows_csv_error:
  "\<forall>ev\<in>set pre. \<exists>r. ev = Row r \<Longrightarrow>
     snd (read_rows line_no (pre @ CsvError # post) rows) = PyFalse"
  by (induction pre arbitrary: line_no rows) auto

lemma read_rows_result:
  "read_rows line_no evs rows = (errs, res) \<Longrightarrow>
     (res = PyFalse \<and> length errs = 1) \<or> (errs = [] \<and> (\<exists>rs. res = RowList rs))"
  by (induction line_no evs rows rule: read_rows.induct) (auto split: if_splits)

text \<open>
  Claim C9: when \<open>read_csv\<close> returns \<open>False\<close> (the window being valid, so that the file
  is read at all), \<open>make_plan\<close> raises \<open>TypeError\<close> on it, and the run ends with the
  traceback of that uncaught exception (exit status 1), nothing on stdout and no output
  file written.
\<close>

theorem main_read_failure_uncaught:
  assumes "start_year < last_year" "last_year - start_year \<le> int limmit_num"
    and "snd (read_csv src) = PyFalse"
  shows "make_plan to_int (snd (read_csv src)) start_year last_year = Inl TypeError \<and>
         main to_int src writable start_year last_year =
           \<lparr>exit_status = 1, stdout = [],
            stderr = fst (read_csv src) @ [Traceback TypeError], out_file = NotWritten\<rparr>"
  using assms by (cases "read_csv src") (simp add: main_def make_plan_def)

theorem main_read_failure_uncaught_witness:
  "main int_ascii NoFile True 2025 2061 =
     \<lparr>exit_status = 1, stdout = [],
      stderr = [FileNotFoundMsg, Traceback TypeError], out_file = NotWritten\<rparr>"
  using main_read_failure_uncaught [of 2025 2061 NoFile int_ascii True]
  by (simp add: read_csv_def limmit_num_def)

end
